theory Spec2Isabelle
  imports Main "HOL-Library.Word"
begin

unbundle bit_operations_syntax

section \<open>The class template BitMaskBase of Bitmask.cpp\<close>

text \<open>
  \<^verbatim>\<open>template <typename MaskType, typename OpType, int TMax> struct BitMaskBase\<close>
  has one data member, \<^verbatim>\<open>MaskType Mask\<close>. The record below keeps the storage type as
  its type parameter; every operation is modelled on \<open>'a word BitMaskBase\<close>, an
  unsigned \<open>MaskType\<close> of \<open>LENGTH('a)\<close> bits (\<^verbatim>\<open>uint8_t\<close>, \<^verbatim>\<open>uint16_t\<close>, ... as in
  \<^verbatim>\<open>main\<close>). The template parameter \<^verbatim>\<open>TMax\<close> is not stored in an object: the
  operations that read it take it as their first argument, an \<open>int\<close> as in the source.

  A bit position is modelled by the natural number that
  \<^verbatim>\<open>static_cast<MaskType>(bitPos)\<close> denotes, so the same definitions serve
  \<^verbatim>\<open>BitMask\<close> (where \<open>OpType\<close> is \<open>MaskType\<close>) and \<^verbatim>\<open>Enummask\<close> (where it is
  the enumerator's ordinal).

  A signed \<open>MaskType\<close> (the default \<^verbatim>\<open>int\<close> of \<^verbatim>\<open>Enummask\<close>, which \<^verbatim>\<open>main\<close> never
  uses) is outside the model: its right shift and its maximum differ from the ones
  below.
\<close>

record 'masktype BitMaskBase =
  Mask :: "'masktype"

subsection \<open>Shifts of the built-in integer types\<close>

text \<open>
  C++ evaluates \<^verbatim>\<open>x << n\<close> and \<^verbatim>\<open>x >> n\<close> on the promoted left operand: an unsigned
  type narrower than \<^verbatim>\<open>int\<close> is promoted to \<^verbatim>\<open>int\<close> (taken to be 32 bits wide), a
  wider one keeps its width. The behaviour is undefined when the count is not smaller
  than that width; \<open>None\<close> stands for it. For a smaller count the value, once it is
  stored back into or combined with a \<open>MaskType\<close>, is the shift on \<open>'a word\<close>: bits
  moved beyond \<open>LENGTH('a)\<close> are dropped by the conversion.
\<close>

definition promoted_bits :: "'a::len word \<Rightarrow> nat" where
  "promoted_bits x = max 32 LENGTH('a)"

definition shl :: "'a::len word \<Rightarrow> nat \<Rightarrow> 'a word option" where
  "shl x n = (if n < promoted_bits x then Some (push_bit n x) else None)"

definition shr :: "'a::len word \<Rightarrow> nat \<Rightarrow> 'a word option" where
  "shr x n = (if n < promoted_bits x then Some (drop_bit n x) else None)"

subsection \<open>The compile-time check\<close>

text \<open>
  \<^verbatim>\<open>static constexpr bool IsBitValidPos(const int pos) { return pos >= 0 && pos <= TMax; }\<close>
  and \<^verbatim>\<open>static_assert(IsBitValidPos(TMax), ...)\<close>: an instantiation compiles iff
  \<open>static_assert_TMax\<close> holds of its \<open>TMax\<close>.
\<close>

definition IsBitValidPos :: "int \<Rightarrow> int \<Rightarrow> bool" where
  "IsBitValidPos TMax pos = (pos \<ge> 0 \<and> pos \<le> TMax)"

definition static_assert_TMax :: "int \<Rightarrow> bool" where
  "static_assert_TMax TMax = IsBitValidPos TMax TMax"

subsection \<open>Constructors\<close>

definition BitMaskBase_default :: "'a::len word BitMaskBase" where
  "BitMaskBase_default = \<lparr>Mask = 0\<rparr>"

definition BitMaskBase_initialValue :: "'a::len word \<Rightarrow> 'a word BitMaskBase" where
  "BitMaskBase_initialValue initialValue = \<lparr>Mask = initialValue\<rparr>"

subsection \<open>Bit manipulation\<close>

text \<open>\<^verbatim>\<open>Mask |= (MaskType(1) << static_cast<MaskType>(bitPos));\<close>\<close>

definition SetBit :: "nat \<Rightarrow> 'a::len word BitMaskBase \<Rightarrow> 'a word BitMaskBase option" where
  "SetBit bitPos m = map_option (\<lambda>b. m\<lparr>Mask := Mask m OR b\<rparr>) (shl 1 bitPos)"

text \<open>\<^verbatim>\<open>(SetBit(static_cast<OpType>(bits)), ...);\<close> a fold over the comma operator, left to right.\<close>

fun SetBits :: "nat list \<Rightarrow> 'a::len word BitMaskBase \<Rightarrow> 'a word BitMaskBase option" where
  "SetBits [] m = Some m"
| "SetBits (b # bits) m = (case SetBit b m of None \<Rightarrow> None | Some m' \<Rightarrow> SetBits bits m')"

text \<open>
  The variadic constructor: \<^verbatim>\<open>Mask(0)\<close>, then
  \<^verbatim>\<open>(SetBits(static_cast<OpType>(bits)), ...);\<close> one call of \<^verbatim>\<open>SetBits\<close> for each argument.
\<close>

fun BitMaskBase_bits_fold :: "nat list \<Rightarrow> 'a::len word BitMaskBase \<Rightarrow> 'a word BitMaskBase option" where
  "BitMaskBase_bits_fold [] m = Some m"
| "BitMaskBase_bits_fold (b # bits) m =
     (case SetBits [b] m of None \<Rightarrow> None | Some m' \<Rightarrow> BitMaskBase_bits_fold bits m')"

definition BitMaskBase_bits :: "nat list \<Rightarrow> 'a::len word BitMaskBase option" where
  "BitMaskBase_bits bits = BitMaskBase_bits_fold bits \<lparr>Mask = 0\<rparr>"

text \<open>\<^verbatim>\<open>Mask &= ~(MaskType(1) << static_cast<MaskType>(bitPos));\<close>\<close>

definition ClearBit :: "nat \<Rightarrow> 'a::len word BitMaskBase \<Rightarrow> 'a word BitMaskBase option" where
  "ClearBit bitPos m = map_option (\<lambda>b. m\<lparr>Mask := Mask m AND NOT b\<rparr>) (shl 1 bitPos)"

text \<open>\<^verbatim>\<open>Mask = 0;\<close>\<close>

definition ResetAllBits :: "'a::len word BitMaskBase \<Rightarrow> 'a word BitMaskBase" where
  "ResetAllBits m = m\<lparr>Mask := 0\<rparr>"

text \<open>\<^verbatim>\<open>Mask ^= (MaskType(1) << static_cast<MaskType>(bitPos));\<close>\<close>

definition ToggleBit :: "nat \<Rightarrow> 'a::len word BitMaskBase \<Rightarrow> 'a word BitMaskBase option" where
  "ToggleBit bitPos m = map_option (\<lambda>b. m\<lparr>Mask := Mask m XOR b\<rparr>) (shl 1 bitPos)"

text \<open>
  \<^verbatim>\<open>template <typename... Args> void ClearBits(const Args&... args) { (clearBit(args ...)); }\<close>
  The body is one call: the function named \<^verbatim>\<open>clearBit\<close>, applied to the whole pack
  as its argument list. For arguments of integer or enumeration type the name can only
  be found among the members of the class, by its exact spelling.
  \<open>member_taking_position\<close> gives the member functions of \<^verbatim>\<open>BitMaskBase\<close> that
  update the mask at one position; a call that finds no function for its name and its
  number of arguments makes the instantiation ill-formed, which
  \<open>Inl NoMatchingFunction\<close> stands for.
\<close>

datatype call_error = NoMatchingFunction

definition member_taking_position ::
  "string \<Rightarrow> (nat \<Rightarrow> 'a::len word BitMaskBase \<Rightarrow> 'a word BitMaskBase option) option" where
  "member_taking_position name =
     (if name = ''SetBit'' then Some SetBit
      else if name = ''ClearBit'' then Some ClearBit
      else if name = ''ToggleBit'' then Some ToggleBit
      else None)"

definition ClearBits ::
  "nat list \<Rightarrow> 'a::len word BitMaskBase \<Rightarrow> call_error + 'a word BitMaskBase option" where
  "ClearBits args m =
     (case (member_taking_position ''clearBit'', args) of
        (Some f, [bitPos]) \<Rightarrow> Inr (f bitPos m)
      | _ \<Rightarrow> Inl NoMatchingFunction)"

subsection \<open>Queries\<close>

text \<open>\<^verbatim>\<open>return (Mask & (MaskType(1) << static_cast<MaskType>(pos))) != 0;\<close>\<close>

definition IsBitSet :: "nat \<Rightarrow> 'a::len word BitMaskBase \<Rightarrow> bool option" where
  "IsBitSet pos m = map_option (\<lambda>b. Mask m AND b \<noteq> 0) (shl 1 pos)"

text \<open>\<^verbatim>\<open>return Mask != 0;\<close>\<close>

definition AnyBitSet :: "'a::len word BitMaskBase \<Rightarrow> bool" where
  "AnyBitSet m = (Mask m \<noteq> 0)"

text \<open>
  \<^verbatim>\<open>bool IsAnyBitSetInRange(BitMaskBase otherMask) const { return (Mask & otherMask) != 0; }\<close>
  The right operand of \<^verbatim>\<open>&\<close> is the object \<^verbatim>\<open>otherMask\<close>, not its member
  \<^verbatim>\<open>otherMask.Mask\<close>. The class declares no \<^verbatim>\<open>operator&\<close> and no conversion to an
  integer, so only the built-in \<^verbatim>\<open>&\<close> of two integers is there to take the operands.
\<close>

datatype 'masktype operand = Integral "'masktype" | Object "'masktype BitMaskBase"

fun builtin_bitand :: "'a::len word operand \<Rightarrow> 'a word operand \<Rightarrow> call_error + 'a word" where
  "builtin_bitand (Integral x) (Integral y) = Inr (x AND y)"
| "builtin_bitand x y = Inl NoMatchingFunction"

definition IsAnyBitSetInRange :: "'a::len word BitMaskBase \<Rightarrow> 'a word BitMaskBase \<Rightarrow> call_error + bool" where
  "IsAnyBitSetInRange m otherMask =
     (case builtin_bitand (Integral (Mask m)) (Object otherMask) of
        Inl e \<Rightarrow> Inl e
      | Inr v \<Rightarrow> Inr (v \<noteq> 0))"

text \<open>
  \<^verbatim>\<open>return Mask == std::numeric_limits<MaskType>::max();\<close> For an unsigned type of
  \<open>LENGTH('a)\<close> bits the standard library's maximum is \<open>2 ^ LENGTH('a) - 1\<close>.
\<close>

definition numeric_limits_max :: "'a::len word" where
  "numeric_limits_max = word_of_nat (2 ^ LENGTH('a) - 1)"

definition AllBitsSet :: "'a::len word BitMaskBase \<Rightarrow> bool" where
  "AllBitsSet m = (Mask m = numeric_limits_max)"

text \<open>
  \<^verbatim>\<open>int count = 0; MaskType tempMask = Mask;
  while (tempMask != 0) { count += tempMask & 1; tempMask >>= 1; }
  return count;\<close>
  The shift by one is defined for every storage type, and \<^verbatim>\<open>count\<close> stays below
  the number of bits of the storage, far from the bounds of \<^verbatim>\<open>int\<close>.
\<close>

function CountSetBits_loop :: "'a::len word \<Rightarrow> int \<Rightarrow> int" where
  "CountSetBits_loop tempMask count =
     (if tempMask \<noteq> 0
      then CountSetBits_loop (drop_bit 1 tempMask) (count + uint (tempMask AND 1))
      else count)"
  by pat_completeness auto
termination
  by (relation "measure (\<lambda>(tempMask, count). unat tempMask)")
    (simp_all add: drop_bit_eq_div unat_div unat_gt_0)

definition CountSetBits :: "'a::len word BitMaskBase \<Rightarrow> int" where
  "CountSetBits m = CountSetBits_loop (Mask m) 0"

text \<open>
  \<^verbatim>\<open>int count = 0; MaskType tempMask = Mask;
  while (tempMask != 0 && count < pos) { count += tempMask & 1; tempMask >>= 1; }
  return static_cast<OpType>(count);\<close>
  The result is given for \<open>OpType = MaskType\<close>, the instantiation \<^verbatim>\<open>BitMask\<close> makes.
\<close>

function IsBitNSet_loop :: "'a::len word \<Rightarrow> int \<Rightarrow> int \<Rightarrow> int" where
  "IsBitNSet_loop tempMask count pos =
     (if tempMask \<noteq> 0 \<and> count < pos
      then IsBitNSet_loop (drop_bit 1 tempMask) (count + uint (tempMask AND 1)) pos
      else count)"
  by pat_completeness auto
termination
  by (relation "measure (\<lambda>(tempMask, count, pos). unat tempMask)")
    (simp_all add: drop_bit_eq_div unat_div unat_gt_0)

definition IsBitNSet :: "int \<Rightarrow> 'a::len word BitMaskBase \<Rightarrow> 'a word" where
  "IsBitNSet pos m = word_of_int (IsBitNSet_loop (Mask m) 0 pos)"

text \<open>
  \<^verbatim>\<open>std::string result; MaskType value = Mask;
  for (int i = TMax - 1; i >= 0; i--) { result += ((value >> i) & 1) ? '1' : '0'; }
  return result;\<close>
\<close>

function toBinaryString_loop :: "'a::len word \<Rightarrow> int \<Rightarrow> string \<Rightarrow> string option" where
  "toBinaryString_loop val i result =
     (if i \<ge> 0
      then (case shr val (nat i) of
              None \<Rightarrow> None
            | Some v \<Rightarrow>
                toBinaryString_loop val (i - 1)
                  (result @ [if v AND 1 \<noteq> 0 then CHR ''1'' else CHR ''0'']))
      else Some result)"
  by pat_completeness auto
termination
  by (relation "measure (\<lambda>(val, i, result). nat (i + 1))") simp_all

definition toBinaryString :: "int \<Rightarrow> 'a::len word BitMaskBase \<Rightarrow> string option" where
  "toBinaryString TMax m = toBinaryString_loop (Mask m) (TMax - 1) []"

subsection \<open>Operators\<close>

text \<open>
  \<^verbatim>\<open>operator+\<close> builds a default-constructed \<^verbatim>\<open>result\<close> and assigns
  \<^verbatim>\<open>result.Mask = Mask | other.Mask\<close>; \<^verbatim>\<open>operator+=\<close> updates \<^verbatim>\<open>*this\<close> with
  \<^verbatim>\<open>Mask |= other.Mask\<close> and returns it; \<^verbatim>\<open>operator~\<close> copies \<^verbatim>\<open>*this\<close> and
  complements the copy's storage; \<^verbatim>\<open>operator==\<close> compares the storages.
\<close>

definition operator_plus :: "'a::len word BitMaskBase \<Rightarrow> 'a word BitMaskBase \<Rightarrow> 'a word BitMaskBase" where
  "operator_plus m other = BitMaskBase_default\<lparr>Mask := Mask m OR Mask other\<rparr>"

definition operator_plus_assign :: "'a::len word BitMaskBase \<Rightarrow> 'a word BitMaskBase \<Rightarrow> 'a word BitMaskBase" where
  "operator_plus_assign m other = m\<lparr>Mask := Mask m OR Mask other\<rparr>"

definition operator_compl :: "'a::len word BitMaskBase \<Rightarrow> 'a word BitMaskBase" where
  "operator_compl m = m\<lparr>Mask := NOT (Mask m)\<rparr>"

definition operator_eq :: "'a::len word BitMaskBase \<Rightarrow> 'a word BitMaskBase \<Rightarrow> bool" where
  "operator_eq m other = (Mask m = Mask other)"

section \<open>The specification's wording\<close>

text \<open>
  "The number of positions \<open>p\<close> in \<open>[0, W)\<close> for which \<^verbatim>\<open>IsBitSet(p)\<close> returns true",
  \<open>W\<close> being \<open>TMax\<close>.
\<close>

definition count_set_positions :: "int \<Rightarrow> 'a::len word BitMaskBase \<Rightarrow> nat" where
  "count_set_positions TMax m = length (filter (\<lambda>p. IsBitSet p m = Some True) [0..<nat TMax])"

text \<open>
  "Scans from the least significant bit, accumulating a running count of 1-bits seen, and
  stops as soon as that running count reaches \<open>n\<close> or the remaining bits are exhausted;
  returns the final running count." The bits come least significant first.
\<close>

fun scan_running_count :: "int \<Rightarrow> bool list \<Rightarrow> int \<Rightarrow> int" where
  "scan_running_count n [] count = count"
| "scan_running_count n (b # bits) count =
     (if count \<ge> n then count
      else scan_running_count n bits (count + (if b then 1 else 0)))"

definition storage_bits :: "'a::len word \<Rightarrow> bool list" where
  "storage_bits w = map (bit w) [0..<LENGTH('a)]"

section \<open>Properties\<close>

subsection \<open>Shifting the constant one\<close>

lemma shl_one_Some: "n < promoted_bits (1 :: 'a::len word) \<Longrightarrow> shl (1 :: 'a word) n = Some (push_bit n 1)"
  by (simp add: shl_def)

lemma bit_two_power: "bit ((2 :: 'a::len word) ^ n) q \<longleftrightarrow> q = n \<and> n < LENGTH('a)"
  by (auto simp add: bit_exp_iff possible_bit_word)

lemma and_push_bit_one_neq_0: "(w AND push_bit n (1 :: 'a::len word) \<noteq> 0) = bit w n"
proof (cases "bit w n")
  case True
  then have "bit (w AND push_bit n 1) n"
    by (simp add: bit_and_iff bit_two_power bit_imp_le_length)
  then have "w AND push_bit n 1 \<noteq> 0"
    by (auto simp del: push_bit_of_1)
  with True show ?thesis by simp
next
  case False
  have "w AND push_bit n 1 = 0"
  proof (rule bit_eqI)
    fix q
    show "bit (w AND push_bit n 1) q = bit (0 :: 'a word) q"
      using False by (simp add: bit_and_iff bit_two_power)
  qed
  with False show ?thesis by simp
qed

lemma IsBitSet_bit:
  "pos < promoted_bits (Mask m) \<Longrightarrow> IsBitSet pos m = Some (bit (Mask m) pos)"
  using and_push_bit_one_neq_0 [of "Mask m" pos]
  by (simp add: IsBitSet_def shl_def promoted_bits_def)

lemma bit_or_one_other: "q \<noteq> p \<Longrightarrow> bit (w OR push_bit p (1 :: 'a::len word)) q = bit w q"
  by (simp add: bit_or_iff bit_two_power)

lemma bit_and_not_one_other: "q \<noteq> p \<Longrightarrow> bit (w AND NOT (push_bit p (1 :: 'a::len word))) q = bit w q"
  by (auto simp add: bit_and_iff bit_not_iff bit_two_power dest: bit_imp_le_length)

lemma bit_xor_one_other: "q \<noteq> p \<Longrightarrow> bit (w XOR push_bit p (1 :: 'a::len word)) q = bit w q"
  by (simp add: bit_xor_iff bit_two_power)

subsection \<open>The masks of the demonstration program\<close>

text \<open>
  \<^verbatim>\<open>main\<close> sets bits 2 and 5 of a \<^verbatim>\<open>BitMask<uint8_t>\<close>, builds the masks of bits 3, 0
  and 1, 2 with the variadic constructor and combines them, and sets the first two
  flags of an \<^verbatim>\<open>Enummask<MyEnum, uint16_t>\<close>, whose \<open>TMax\<close> is 4.
\<close>

lemma main_bitmask:
  "SetBits [2, 5] (BitMaskBase_default :: 8 word BitMaskBase) = Some \<lparr>Mask = 36\<rparr>"
  "toBinaryString 8 \<lparr>Mask = 36 :: 8 word\<rparr> = Some ''00100100''"
  "ClearBit 2 \<lparr>Mask = 36 :: 8 word\<rparr> = Some \<lparr>Mask = 32\<rparr>"
  "toBinaryString 8 \<lparr>Mask = 32 :: 8 word\<rparr> = Some ''00100000''"
  by code_simp+

lemma main_combined:
  "BitMaskBase_bits [3, 0] = Some \<lparr>Mask = 9 :: 8 word\<rparr>"
  "BitMaskBase_bits [1, 2] = Some \<lparr>Mask = 6 :: 8 word\<rparr>"
  "toBinaryString 8 (operator_plus \<lparr>Mask = 9 :: 8 word\<rparr> \<lparr>Mask = 6\<rparr>) = Some ''00001111''"
  by code_simp+

lemma main_enumMask:
  "SetBits [0, 1] (BitMaskBase_default :: 16 word BitMaskBase) = Some \<lparr>Mask = 3\<rparr>"
  "toBinaryString 4 \<lparr>Mask = 3 :: 16 word\<rparr> = Some ''0011''"
  by code_simp+

lemma static_assert_TMax_iff: "static_assert_TMax TMax \<longleftrightarrow> 0 \<le> TMax"
  by (simp add: static_assert_TMax_def IsBitValidPos_def)

subsection \<open>C8: combination is a bitwise OR\<close>

text \<open>
  C8. For all masks \<open>a\<close>, \<open>b\<close>, \<open>c\<close> over the same storage type, \<^verbatim>\<open>operator+\<close> is
  commutative, associative and idempotent and has the default-constructed (zero) mask
  as identity, equality being \<^verbatim>\<open>operator==\<close>; \<^verbatim>\<open>operator+=\<close> leaves in \<^verbatim>\<open>*this\<close> a
  mask equal to the one \<^verbatim>\<open>operator+\<close> returns.
\<close>

theorem operator_plus_algebra:
  fixes a b c :: "'a::len word BitMaskBase"
  shows "operator_eq (operator_plus a b) (operator_plus b a)
       \<and> operator_eq (operator_plus (operator_plus a b) c) (operator_plus a (operator_plus b c))
       \<and> operator_eq (operator_plus a a) a
       \<and> operator_eq (operator_plus a BitMaskBase_default) a
       \<and> operator_eq (operator_plus_assign a b) (operator_plus a b)"
  by (simp add: operator_eq_def operator_plus_def operator_plus_assign_def BitMaskBase_default_def
      ac_simps)

subsection \<open>C10: the single-bit mutators touch one bit\<close>

text \<open>
  C10. Let the width \<open>TMax\<close> be at most the number of bits of the promoted storage
  type, so that the shift by every position in \<open>[0, TMax)\<close> is defined. For every mask
  and distinct positions \<open>p\<close>, \<open>q\<close> in \<open>[0, TMax)\<close>, each of \<^verbatim>\<open>SetBit(p)\<close>,
  \<^verbatim>\<open>ClearBit(p)\<close> and \<^verbatim>\<open>ToggleBit(p)\<close> returns a mask, and \<^verbatim>\<open>IsBitSet(q)\<close> gives on
  it the boolean it gives on the mask before.
\<close>

theorem mutators_frame:
  fixes m :: "'a::len word BitMaskBase"
  assumes "TMax \<le> int (promoted_bits (Mask m))"
    and "int p < TMax" and "int q < TMax" and "q \<noteq> p"
  shows "(\<exists>m'. SetBit p m = Some m' \<and> IsBitSet q m' = IsBitSet q m \<and> IsBitSet q m \<noteq> None)
       \<and> (\<exists>m'. ClearBit p m = Some m' \<and> IsBitSet q m' = IsBitSet q m)
       \<and> (\<exists>m'. ToggleBit p m = Some m' \<and> IsBitSet q m' = IsBitSet q m)"
proof -
  from assms have p: "p < promoted_bits (1 :: 'a word)" and q: "q < promoted_bits (1 :: 'a word)"
    by (simp_all add: promoted_bits_def)
  from q have q': "\<And>w :: 'a word. q < promoted_bits w"
    by (simp add: promoted_bits_def)
  have set: "bit (Mask m OR push_bit p 1) q = bit (Mask m) q"
    using \<open>q \<noteq> p\<close> by (rule bit_or_one_other)
  have clear: "bit (Mask m AND NOT (push_bit p 1)) q = bit (Mask m) q"
    using \<open>q \<noteq> p\<close> by (rule bit_and_not_one_other)
  have toggle: "bit (Mask m XOR push_bit p 1) q = bit (Mask m) q"
    using \<open>q \<noteq> p\<close> by (rule bit_xor_one_other)
  show ?thesis
    using set clear toggle
    by (simp add: SetBit_def ClearBit_def ToggleBit_def shl_one_Some [OF p] IsBitSet_bit q'
        del: push_bit_of_1)
qed

theorem mutators_frame_witness:
  "(\<exists>m'. SetBit 2 \<lparr>Mask = 36 :: 8 word\<rparr> = Some m' \<and> IsBitSet 5 m' = Some True)
 \<and> (\<exists>m'. ClearBit 2 \<lparr>Mask = 36 :: 8 word\<rparr> = Some m' \<and> IsBitSet 5 m' = Some True)
 \<and> (\<exists>m'. ToggleBit 2 \<lparr>Mask = 36 :: 8 word\<rparr> = Some m' \<and> IsBitSet 5 m' = Some True)"
proof -
  have w: "IsBitSet 5 \<lparr>Mask = 36 :: 8 word\<rparr> = Some True"
    by (simp add: IsBitSet_def shl_def promoted_bits_def)
  show ?thesis
    using mutators_frame [of 8 "\<lparr>Mask = 36 :: 8 word\<rparr>" 2 5] w
    by (simp add: promoted_bits_def)
qed

subsection \<open>C7: what the static assertion accepts\<close>

text \<open>
  C7. The assertion is meant to reject a \<open>TMax\<close> above the number of bits of
  \<open>MaskType\<close>. It compares \<open>TMax\<close> with itself: \<^verbatim>\<open>BitMaskBase<uint8_t, uint8_t, 9>\<close>
  passes it although \<^verbatim>\<open>uint8_t\<close> has 8 bits.
\<close>

theorem static_assert_accepts_9_for_uint8:
  "static_assert_TMax 9 \<and> \<not> 9 \<le> int LENGTH(8)"
  by (simp add: static_assert_TMax_def IsBitValidPos_def)

subsection \<open>C1: the count of set bits and the per-position query\<close>

declare CountSetBits_loop.simps [simp del] IsBitNSet_loop.simps [simp del]
  toBinaryString_loop.simps [simp del]

lemma drop_bit_eq_0_no_bits:
  fixes w :: "'a::len word"
  assumes "drop_bit k w = 0" and "k \<le> j"
  shows "\<not> bit w j"
proof -
  have "bit (drop_bit k w) (j - k) = bit w j"
    using assms(2) by (simp add: bit_drop_bit_eq)
  with assms(1) show ?thesis by simp
qed

lemma uint_and_one_drop_bit:
  fixes w :: "'a::len word"
  shows "uint (drop_bit k w AND 1) = (if bit w k then 1 else 0)"
  by (simp add: and_one_eq mod_2_eq_odd bit_iff_odd_drop_bit)

lemma CountSetBits_loop_drop_bit:
  fixes w :: "'a::len word"
  shows "CountSetBits_loop (drop_bit k w) c = c + int (length (filter (bit w) [k..<LENGTH('a)]))"
proof (induction "LENGTH('a) - k" arbitrary: k c)
  case 0
  then have "drop_bit k w = 0"
    by (simp add: drop_bit_word_beyond)
  moreover from 0 have "[k..<LENGTH('a)] = []" by simp
  ultimately show ?case by (simp add: CountSetBits_loop.simps)
next
  case (Suc d)
  then have k: "k < LENGTH('a)" and d: "d = LENGTH('a) - Suc k" by simp_all
  show ?case
  proof (cases "drop_bit k w = 0")
    case True
    then have "filter (bit w) [k..<LENGTH('a)] = []"
      by (auto simp add: filter_empty_conv dest: drop_bit_eq_0_no_bits)
    with True show ?thesis by (simp add: CountSetBits_loop.simps)
  next
    case False
    have "CountSetBits_loop (drop_bit k w) c
        = CountSetBits_loop (drop_bit (Suc k) w) (c + uint (drop_bit k w AND 1))"
      using False by (subst CountSetBits_loop.simps) (simp add: drop_bit_drop_bit)
    also have "\<dots> = c + uint (drop_bit k w AND 1) + int (length (filter (bit w) [Suc k..<LENGTH('a)]))"
      using Suc.hyps(1) [OF d] .
    also have "\<dots> = c + int (length (filter (bit w) [k..<LENGTH('a)]))"
      using k by (simp add: upt_conv_Cons uint_and_one_drop_bit del: upt_Suc)
    finally show ?thesis .
  qed
qed

lemma CountSetBits_filter:
  fixes m :: "'a::len word BitMaskBase"
  shows "CountSetBits m = int (length (filter (bit (Mask m)) [0..<LENGTH('a)]))"
  using CountSetBits_loop_drop_bit [of 0 "Mask m" 0] by (simp add: CountSetBits_def)

lemma filter_upt_beyond:
  assumes "\<And>j. a \<le> j \<Longrightarrow> \<not> P j"
  shows "filter P [0..<a + d] = filter P [0..<a]"
proof -
  have "[0..<a + d] = [0..<a] @ [a..<a + d]"
    by (rule upt_add_eq_append) simp
  moreover have "filter P [a..<a + d] = []"
    using assms by (simp add: filter_empty_conv)
  ultimately show ?thesis by simp
qed

lemma filter_upt_same_support:
  assumes a: "\<And>j. a \<le> j \<Longrightarrow> \<not> P j" and b: "\<And>j. b \<le> j \<Longrightarrow> \<not> P j"
  shows "filter P [0..<a] = filter P [0..<b]"
proof (cases "a \<le> b")
  case True
  have "filter P [0..<a + (b - a)] = filter P [0..<a]"
    using a by (rule filter_upt_beyond)
  with True show ?thesis by simp
next
  case False
  have "filter P [0..<b + (a - b)] = filter P [0..<b]"
    using b by (rule filter_upt_beyond)
  with False show ?thesis by simp
qed

lemma count_set_positions_filter:
  fixes m :: "'a::len word BitMaskBase"
  assumes "TMax \<le> int (promoted_bits (Mask m))"
  shows "count_set_positions TMax m = length (filter (bit (Mask m)) [0..<nat TMax])"
proof -
  have "filter (\<lambda>p. IsBitSet p m = Some True) [0..<nat TMax] = filter (bit (Mask m)) [0..<nat TMax]"
  proof (rule filter_cong [OF refl])
    fix p assume "p \<in> set [0..<nat TMax]"
    with assms have "p < promoted_bits (Mask m)" by auto
    then show "(IsBitSet p m = Some True) = bit (Mask m) p"
      by (simp add: IsBitSet_bit)
  qed
  then show ?thesis by (simp add: count_set_positions_def)
qed

text \<open>
  C1, as stated, fails when \<open>TMax\<close> is smaller than the storage width: the mask built
  from the raw value 16 over \<^verbatim>\<open>uint16_t\<close> with \<open>TMax = 4\<close> (the width of
  \<^verbatim>\<open>Enummask<MyEnum, uint16_t>\<close>) has one set bit, at position 4, and no position of
  \<open>[0, 4)\<close> answers true.
\<close>

theorem CountSetBits_beyond_width_counterexample:
  "CountSetBits (BitMaskBase_initialValue (16 :: 16 word)) = 1
 \<and> count_set_positions 4 (BitMaskBase_initialValue (16 :: 16 word)) = 0"
  by code_simp

text \<open>
  C1, amended. Let \<open>TMax\<close> be at most the number of bits of the promoted storage type.
  For every mask whose storage has no 1-bit at a position \<open>TMax\<close> or above (every mask,
  when \<open>TMax\<close> is at least the number of bits of the storage type),
  \<^verbatim>\<open>CountSetBits()\<close> equals the number of positions \<open>p\<close> in \<open>[0, TMax)\<close> for which
  \<^verbatim>\<open>IsBitSet(p)\<close> returns true.
\<close>

theorem CountSetBits_counts_positions:
  fixes m :: "'a::len word BitMaskBase"
  assumes "TMax \<le> int (promoted_bits (Mask m))"
    and "drop_bit (nat TMax) (Mask m) = 0"
  shows "CountSetBits m = int (count_set_positions TMax m)"
proof -
  have "filter (bit (Mask m)) [0..<LENGTH('a)] = filter (bit (Mask m)) [0..<nat TMax]"
    by (rule filter_upt_same_support)
      (auto dest: bit_imp_le_length drop_bit_eq_0_no_bits [OF assms(2)])
  then show ?thesis
    by (simp add: CountSetBits_filter count_set_positions_filter [OF assms(1)])
qed


theorem CountSetBits_counts_positions_witness:
  "CountSetBits \<lparr>Mask = 36 :: 8 word\<rparr> = 2 \<and> count_set_positions 8 \<lparr>Mask = 36 :: 8 word\<rparr> = 2"
proof -
  have "CountSetBits \<lparr>Mask = 36 :: 8 word\<rparr> = 2"
    by (simp add: CountSetBits_def CountSetBits_loop.simps)
  then show ?thesis
    using CountSetBits_counts_positions [of 8 "\<lparr>Mask = 36 :: 8 word\<rparr>"]
    by (simp add: promoted_bits_def)
qed

subsection \<open>C9: the bounded count is the minimum of the bound and the count\<close>

lemma CountSetBits_loop_acc:
  "CountSetBits_loop t c = c + CountSetBits_loop t 0"
  using CountSetBits_loop_drop_bit [of 0 t c] CountSetBits_loop_drop_bit [of 0 t 0] by simp

lemma CountSetBits_loop_bounds:
  fixes t :: "'a::len word"
  shows "0 \<le> CountSetBits_loop t 0" and "CountSetBits_loop t 0 \<le> int LENGTH('a)"
proof -
  have eq: "CountSetBits_loop t 0 = int (length (filter (bit t) [0..<LENGTH('a)]))"
    using CountSetBits_loop_drop_bit [of 0 t 0] by simp
  show "0 \<le> CountSetBits_loop t 0" by (simp add: eq)
  have "length (filter (bit t) [0..<LENGTH('a)]) \<le> length [0..<LENGTH('a)]"
    by (rule length_filter_le)
  then show "CountSetBits_loop t 0 \<le> int LENGTH('a)" by (simp add: eq)
qed

lemma CountSetBits_loop_step:
  "t \<noteq> 0 \<Longrightarrow> CountSetBits_loop t c = CountSetBits_loop (drop_bit 1 t) (c + uint (t AND 1))"
  by (subst CountSetBits_loop.simps) simp

lemma uint_and_one_cases:
  fixes t :: "'a::len word"
  shows "uint (t AND 1) = 0 \<or> uint (t AND 1) = 1"
  using uint_and_one_drop_bit [of 0 t] by (simp split: if_splits)

lemma IsBitNSet_loop_min:
  "IsBitNSet_loop t c n = (if c < n then min n (CountSetBits_loop t c) else c)"
proof (induction t c n rule: IsBitNSet_loop.induct)
  case (1 tempMask count pos)
  show ?case
  proof (cases "tempMask \<noteq> 0 \<and> count < pos")
    case False
    then show ?thesis
      by (subst IsBitNSet_loop.simps, subst CountSetBits_loop.simps) auto
  next
    case True
    let ?b = "uint (tempMask AND 1)"
    let ?t = "drop_bit 1 tempMask"
    have unfold: "IsBitNSet_loop tempMask count pos = IsBitNSet_loop ?t (count + ?b) pos"
      using True by (subst IsBitNSet_loop.simps) simp
    have ih: "IsBitNSet_loop ?t (count + ?b) pos
        = (if count + ?b < pos then min pos (CountSetBits_loop ?t (count + ?b)) else count + ?b)"
      using "1.IH" True by simp
    have step: "CountSetBits_loop tempMask count = CountSetBits_loop ?t (count + ?b)"
      using True by (simp add: CountSetBits_loop_step)
    have ge: "count + ?b \<le> CountSetBits_loop ?t (count + ?b)"
      using CountSetBits_loop_acc [of ?t "count + ?b"] CountSetBits_loop_bounds(1) [of ?t] by simp
    show ?thesis
      using True unfold ih step ge uint_and_one_cases [of tempMask] by auto
  qed
qed

lemma IsBitNSet_loop_range:
  fixes t :: "'a::len word"
  shows "0 \<le> IsBitNSet_loop t 0 n" and "IsBitNSet_loop t 0 n < 2 ^ LENGTH('a)"
proof -
  have "LENGTH('a) < 2 ^ LENGTH('a)"
    by (rule less_exp)
  then have "int LENGTH('a) < int (2 ^ LENGTH('a))"
    by (simp only: of_nat_less_iff)
  then have lt: "int LENGTH('a) < 2 ^ LENGTH('a)"
    by simp
  show "0 \<le> IsBitNSet_loop t 0 n"
    using CountSetBits_loop_bounds(1) [of t] by (simp add: IsBitNSet_loop_min)
  have "IsBitNSet_loop t 0 n \<le> CountSetBits_loop t 0"
    using CountSetBits_loop_bounds(1) [of t] by (simp add: IsBitNSet_loop_min)
  also have "\<dots> \<le> int LENGTH('a)"
    by (rule CountSetBits_loop_bounds(2))
  also note lt
  finally show "IsBitNSet_loop t 0 n < 2 ^ LENGTH('a)" .
qed

lemma uint_IsBitNSet:
  "uint (IsBitNSet n m) = IsBitNSet_loop (Mask m) 0 n"
  unfolding IsBitNSet_def
  using IsBitNSet_loop_range [of "Mask m" n]
  by (simp add: uint_word_of_int take_bit_int_eq_self)

text \<open>
  C9. For every mask, \<^verbatim>\<open>IsBitNSet(n)\<close> returns 0 for every \<open>n \<le> 0\<close>, and for every
  \<open>n \<ge> 0\<close> the value it returns is the minimum of \<open>n\<close> and \<^verbatim>\<open>CountSetBits()\<close>.
\<close>

theorem IsBitNSet_min_count:
  "(n \<le> 0 \<longrightarrow> IsBitNSet n m = 0)
 \<and> (0 \<le> n \<longrightarrow> uint (IsBitNSet n m) = min n (CountSetBits m))"
proof -
  have "n \<le> 0 \<Longrightarrow> IsBitNSet n m = 0"
    by (simp add: IsBitNSet_def IsBitNSet_loop_min)
  moreover have "0 \<le> n \<Longrightarrow> uint (IsBitNSet n m) = min n (CountSetBits m)"
    using CountSetBits_loop_bounds(1) [of "Mask m"]
    by (simp add: uint_IsBitNSet IsBitNSet_loop_min CountSetBits_def)
  ultimately show ?thesis by blast
qed

theorem IsBitNSet_min_count_witness:
  "IsBitNSet (- 1) \<lparr>Mask = 13 :: 8 word\<rparr> = 0
 \<and> uint (IsBitNSet 2 \<lparr>Mask = 13 :: 8 word\<rparr>) = 2
 \<and> uint (IsBitNSet 5 \<lparr>Mask = 13 :: 8 word\<rparr>) = 3"
proof -
  have c: "CountSetBits \<lparr>Mask = 13 :: 8 word\<rparr> = 3"
    by (simp add: CountSetBits_def CountSetBits_loop.simps)
  show ?thesis
    using IsBitNSet_min_count [of "- 1" "\<lparr>Mask = 13 :: 8 word\<rparr>"]
      IsBitNSet_min_count [of 2 "\<lparr>Mask = 13 :: 8 word\<rparr>"]
      IsBitNSet_min_count [of 5 "\<lparr>Mask = 13 :: 8 word\<rparr>"] c
    by simp
qed

subsection \<open>C3: the bounded count as a scan from the least significant bit\<close>

lemma scan_running_count_no_bits:
  "\<forall>b \<in> set bits. \<not> b \<Longrightarrow> scan_running_count n bits c = c"
  by (induction bits arbitrary: c) auto

lemma IsBitNSet_loop_scan:
  fixes w :: "'a::len word"
  shows "IsBitNSet_loop (drop_bit k w) c n = scan_running_count n (map (bit w) [k..<LENGTH('a)]) c"
proof (induction "LENGTH('a) - k" arbitrary: k c)
  case 0
  then have "drop_bit k w = 0"
    by (simp add: drop_bit_word_beyond)
  moreover from 0 have "[k..<LENGTH('a)] = []" by simp
  ultimately show ?case by (simp add: IsBitNSet_loop.simps)
next
  case (Suc d)
  then have k: "k < LENGTH('a)" and d: "d = LENGTH('a) - Suc k" by simp_all
  from k have upt: "[k..<LENGTH('a)] = k # [Suc k..<LENGTH('a)]"
    by (rule upt_conv_Cons)
  show ?case
  proof (cases "drop_bit k w \<noteq> 0 \<and> c < n")
    case True
    have "IsBitNSet_loop (drop_bit k w) c n
        = IsBitNSet_loop (drop_bit (Suc k) w) (c + uint (drop_bit k w AND 1)) n"
      using True by (subst IsBitNSet_loop.simps) (simp add: drop_bit_drop_bit)
    also have "\<dots> = scan_running_count n (map (bit w) [Suc k..<LENGTH('a)]) (c + uint (drop_bit k w AND 1))"
      using Suc.hyps(1) [OF d] .
    also have "\<dots> = scan_running_count n (map (bit w) [k..<LENGTH('a)]) c"
      using True by (simp add: upt uint_and_one_drop_bit)
    finally show ?thesis .
  next
    case False
    then have loop: "IsBitNSet_loop (drop_bit k w) c n = c"
      by (subst IsBitNSet_loop.simps) auto
    show ?thesis
    proof (cases "c < n")
      case True
      with False have "drop_bit k w = 0" by simp
      then have "\<forall>b \<in> set (map (bit w) [k..<LENGTH('a)]). \<not> b"
        by (auto dest: drop_bit_eq_0_no_bits)
      then show ?thesis
        using loop by (simp only: scan_running_count_no_bits)
    next
      case False
      then show ?thesis using loop by (simp add: upt)
    qed
  qed
qed

text \<open>
  C3. For every mask and every integer \<open>n\<close>, \<^verbatim>\<open>IsBitNSet(n)\<close> returns the running count
  of the scan the specification describes, over the bits of the storage from the least
  significant one: the scan stops once the count has reached \<open>n\<close> or the bits are
  exhausted. The value is a count, not a truth value: it is the number of set bits of
  the mask when that is below \<open>n\<close>, and \<open>n\<close> itself when the mask has at least
  \<open>n \<ge> 0\<close> set bits.
\<close>

theorem IsBitNSet_running_count:
  "uint (IsBitNSet n m) = scan_running_count n (storage_bits (Mask m)) 0
 \<and> (CountSetBits m < n \<longrightarrow> uint (IsBitNSet n m) = CountSetBits m)
 \<and> (0 \<le> n \<and> n \<le> CountSetBits m \<longrightarrow> uint (IsBitNSet n m) = n)"
proof -
  have "uint (IsBitNSet n m) = scan_running_count n (storage_bits (Mask m)) 0"
    using IsBitNSet_loop_scan [of 0 "Mask m" 0 n] by (simp add: uint_IsBitNSet storage_bits_def)
  moreover have "CountSetBits m < n \<Longrightarrow> uint (IsBitNSet n m) = CountSetBits m"
    using CountSetBits_loop_bounds(1) [of "Mask m"]
    by (simp add: uint_IsBitNSet IsBitNSet_loop_min CountSetBits_def)
  moreover have "0 \<le> n \<and> n \<le> CountSetBits m \<Longrightarrow> uint (IsBitNSet n m) = n"
    by (simp add: uint_IsBitNSet IsBitNSet_loop_min CountSetBits_def)
  ultimately show ?thesis by blast
qed

theorem IsBitNSet_running_count_witness:
  "CountSetBits \<lparr>Mask = 13 :: 8 word\<rparr> = 3
 \<and> uint (IsBitNSet 7 \<lparr>Mask = 13 :: 8 word\<rparr>) = 3
 \<and> uint (IsBitNSet 1 \<lparr>Mask = 13 :: 8 word\<rparr>) = 1"
proof -
  have c: "CountSetBits \<lparr>Mask = 13 :: 8 word\<rparr> = 3"
    by (simp add: CountSetBits_def CountSetBits_loop.simps)
  show ?thesis
    using IsBitNSet_running_count [of 7 "\<lparr>Mask = 13 :: 8 word\<rparr>"]
      IsBitNSet_running_count [of 1 "\<lparr>Mask = 13 :: 8 word\<rparr>"] c
    by simp
qed

subsection \<open>C2: all bits of the storage type\<close>

lemma numeric_limits_max_minus_1: "(numeric_limits_max :: 'a::len word) = - 1"
  by (simp add: numeric_limits_max_def of_nat_diff)

lemma all_bits_iff_minus_1:
  fixes w :: "'a::len word"
  shows "(\<forall>p<LENGTH('a). bit w p) \<longleftrightarrow> w = - 1"
proof
  assume "\<forall>p<LENGTH('a). bit w p"
  then show "w = - 1"
    by (intro bit_word_eqI) (simp add: bit_minus_1_iff)
next
  assume "w = - 1"
  then show "\<forall>p<LENGTH('a). bit w p" by simp
qed

lemma unat_numeric_limits_max:
  "unat (numeric_limits_max :: 'a::len word) = 2 ^ LENGTH('a) - 1"
  by (simp add: numeric_limits_max_minus_1 unsigned_minus_1_eq_mask mask_eq_exp_minus_1)

lemma unat_all_ones:
  fixes w :: "'a::len word"
  shows "unat w = 2 ^ LENGTH('a) - 1 \<longleftrightarrow> w = numeric_limits_max"
  by (simp only: word_unat_eq_iff unat_numeric_limits_max)

text \<open>
  C2, as stated, fails in its second half: with \<open>TMax = 4\<close> over \<^verbatim>\<open>uint16_t\<close> the
  complement of the default-constructed mask has all four logical bits set, and
  \<^verbatim>\<open>AllBitsSet()\<close> returns true on it.
\<close>

theorem AllBitsSet_narrow_width_counterexample:
  "(4::int) < int LENGTH(16)
 \<and> IsBitSet 0 (operator_compl (BitMaskBase_default :: 16 word BitMaskBase)) = Some True
 \<and> IsBitSet 1 (operator_compl (BitMaskBase_default :: 16 word BitMaskBase)) = Some True
 \<and> IsBitSet 2 (operator_compl (BitMaskBase_default :: 16 word BitMaskBase)) = Some True
 \<and> IsBitSet 3 (operator_compl (BitMaskBase_default :: 16 word BitMaskBase)) = Some True
 \<and> AllBitsSet (operator_compl (BitMaskBase_default :: 16 word BitMaskBase))"
  by (simp add: operator_compl_def BitMaskBase_default_def AllBitsSet_def numeric_limits_max_def
      IsBitSet_def shl_def promoted_bits_def)

text \<open>
  C2, amended. \<^verbatim>\<open>AllBitsSet()\<close> returns true iff the storage is the all-ones pattern
  of the full bit width of the storage type, whatever \<open>TMax\<close> is. Consequently, when
  \<open>TMax\<close> is smaller than that bit width, it returns false on every mask whose storage
  has no 1-bit at a position \<open>TMax\<close> or above, even when all the logical bits
  \<open>0 .. TMax - 1\<close> are 1.
\<close>

theorem AllBitsSet_full_storage_width:
  fixes m :: "'a::len word BitMaskBase"
  shows "(AllBitsSet m \<longleftrightarrow> unat (Mask m) = 2 ^ LENGTH('a) - 1)
       \<and> (AllBitsSet m \<longleftrightarrow> (\<forall>p<LENGTH('a). bit (Mask m) p))
       \<and> (TMax < int LENGTH('a) \<and> drop_bit (nat TMax) (Mask m) = 0 \<longrightarrow> \<not> AllBitsSet m)"
proof -
  have a: "AllBitsSet m \<longleftrightarrow> Mask m = - 1"
    by (simp add: AllBitsSet_def numeric_limits_max_minus_1)
  have "\<not> AllBitsSet m" if "TMax < int LENGTH('a)" and "drop_bit (nat TMax) (Mask m) = 0"
  proof
    assume "AllBitsSet m"
    with a have "Mask m = - 1" by simp
    moreover from that(1) have "nat TMax < LENGTH('a)"
      using len_gt_0 [where 'a = 'a] by linarith
    ultimately have "bit (Mask m) (nat TMax)" by simp
    moreover have "\<not> bit (Mask m) (nat TMax)"
      using that(2) by (rule drop_bit_eq_0_no_bits) simp
    ultimately show False by simp
  qed
  then show ?thesis
    using a unat_all_ones [of "Mask m"] all_bits_iff_minus_1 [of "Mask m"]
    by (auto simp add: AllBitsSet_def)
qed

theorem AllBitsSet_full_storage_width_witness:
  "(4::int) < int LENGTH(16) \<and> drop_bit (nat 4) (Mask \<lparr>Mask = 15 :: 16 word\<rparr>) = 0
 \<and> \<not> AllBitsSet \<lparr>Mask = 15 :: 16 word\<rparr>
 \<and> AllBitsSet \<lparr>Mask = 255 :: 8 word\<rparr>"
proof -
  have d: "drop_bit (nat 4) (Mask \<lparr>Mask = 15 :: 16 word\<rparr>) = 0"
    by (simp add: drop_bit_eq_div)
  have u: "unat (Mask \<lparr>Mask = 255 :: 8 word\<rparr>) = 2 ^ LENGTH(8) - 1"
    by simp
  show ?thesis
    using AllBitsSet_full_storage_width [of "\<lparr>Mask = 15 :: 16 word\<rparr>" 4]
      AllBitsSet_full_storage_width [of "\<lparr>Mask = 255 :: 8 word\<rparr>" 4] d u
    by simp
qed

subsection \<open>C5: clearing several bits\<close>

text \<open>
  C5. \<^verbatim>\<open>ClearBits\<close> is meant to apply \<^verbatim>\<open>ClearBit\<close> to each position, as
  \<^verbatim>\<open>SetBits\<close> applies \<^verbatim>\<open>SetBit\<close>. Its body names \<^verbatim>\<open>clearBit\<close>, which the class does
  not declare, and passes the whole pack to one call: the calls
  \<^verbatim>\<open>ClearBits(2, 5)\<close> and \<^verbatim>\<open>ClearBits(2)\<close> on a \<^verbatim>\<open>BitMask<uint8_t>\<close> holding bits 2
  and 5 find no function to call, and no bit is cleared.
\<close>

theorem ClearBits_ill_formed:
  "ClearBits [2, 5] \<lparr>Mask = 36 :: 8 word\<rparr> = Inl NoMatchingFunction
 \<and> ClearBits [2] \<lparr>Mask = 36 :: 8 word\<rparr> = Inl NoMatchingFunction"
  by (simp add: ClearBits_def member_taking_position_def)

subsection \<open>C6: overlap with another mask\<close>

text \<open>
  C6. \<^verbatim>\<open>IsAnyBitSetInRange\<close> is meant to test the bitwise AND of the two storages. Its
  body applies \<^verbatim>\<open>&\<close> to the storage and the other object itself: the call on two
  \<^verbatim>\<open>BitMask<uint8_t>\<close> with storages 3 and 1, whose bitwise AND is nonzero, finds no
  \<^verbatim>\<open>operator&\<close> and returns nothing.
\<close>

theorem IsAnyBitSetInRange_ill_formed:
  "IsAnyBitSetInRange \<lparr>Mask = 3 :: 8 word\<rparr> \<lparr>Mask = 1 :: 8 word\<rparr> = Inl NoMatchingFunction"
  by (simp add: IsAnyBitSetInRange_def)

subsection \<open>C4: the binary string\<close>

lemma and_one_neq_0_drop_bit:
  fixes w :: "'a::len word"
  shows "(drop_bit k w AND 1 \<noteq> 0) = bit w k"
  by (simp add: and_one_eq mod_2_eq_odd bit_iff_odd_drop_bit)

lemma toBinaryString_loop_eq:
  fixes val :: "'a::len word"
  shows "i < int (promoted_bits val) \<Longrightarrow>
    toBinaryString_loop val i result
      = Some (result @ map (\<lambda>j. if bit val j then CHR ''1'' else CHR ''0'') (rev [0..<nat (i + 1)]))"
proof (induction val i result rule: toBinaryString_loop.induct)
  case (1 val i result)
  show ?case
  proof (cases "i \<ge> 0")
    case False
    then show ?thesis
      by (subst toBinaryString_loop.simps) simp
  next
    case True
    with "1.prems" have lt: "nat i < promoted_bits val" by simp
    then have shr: "shr val (nat i) = Some (drop_bit (nat i) val)"
      by (simp add: shr_def)
    let ?c = "if bit val (nat i) then CHR ''1'' else CHR ''0''"
    have "toBinaryString_loop val i result = toBinaryString_loop val (i - 1) (result @ [?c])"
      using True by (subst toBinaryString_loop.simps) (simp add: shr and_one_neq_0_drop_bit)
    also have "\<dots> = Some ((result @ [?c])
        @ map (\<lambda>j. if bit val j then CHR ''1'' else CHR ''0'') (rev [0..<nat (i - 1 + 1)]))"
      using "1.IH" [OF True shr] "1.prems" True by (simp add: and_one_neq_0_drop_bit)
    also have "\<dots> = Some (result
        @ map (\<lambda>j. if bit val j then CHR ''1'' else CHR ''0'') (rev [0..<nat (i + 1)]))"
    proof -
      from True have "nat (i + 1) = Suc (nat i)" by simp
      then show ?thesis by simp
    qed
    finally show ?thesis .
  qed
qed

text \<open>
  C4. Let \<open>0 \<le> TMax\<close>, at most the number of bits of the promoted storage type, so that
  every shift of the loop is defined. For every mask, \<^verbatim>\<open>toBinaryString()\<close> returns a
  string of exactly \<open>TMax\<close> characters whose character at index \<open>i\<close> is \<open>'1'\<close> if bit
  \<open>TMax - 1 - i\<close> of the storage is set and \<open>'0'\<close> otherwise; the bits of the storage at
  positions \<open>TMax\<close> and above do not appear: the mask with those bits cleared gives the
  same string.
\<close>

theorem toBinaryString_chars:
  fixes m :: "'a::len word BitMaskBase"
  assumes "0 \<le> TMax" and "TMax \<le> int (promoted_bits (Mask m))"
  shows "\<exists>s. toBinaryString TMax m = Some s
       \<and> int (length s) = TMax
       \<and> (\<forall>i<nat TMax. s ! i = (if bit (Mask m) (nat TMax - 1 - i) then CHR ''1'' else CHR ''0''))
       \<and> toBinaryString TMax (m\<lparr>Mask := take_bit (nat TMax) (Mask m)\<rparr>) = Some s"
proof -
  let ?f = "\<lambda>w :: 'a word. map (\<lambda>j. if bit w j then CHR ''1'' else CHR ''0'') (rev [0..<nat TMax])"
  have eq: "toBinaryString TMax n = Some (?f (Mask n))"
    if "promoted_bits (Mask n) = promoted_bits (Mask m)" for n :: "'a word BitMaskBase"
    using toBinaryString_loop_eq [of "TMax - 1" "Mask n" "[]"] assms that
    by (simp add: toBinaryString_def)
  have len: "int (length (?f (Mask m))) = TMax"
    using assms(1) by simp
  have nth: "?f (Mask m) ! i = (if bit (Mask m) (nat TMax - 1 - i) then CHR ''1'' else CHR ''0'')"
    if "i < nat TMax" for i
    using that by (simp add: rev_nth)
  have low: "?f (take_bit (nat TMax) (Mask m)) = ?f (Mask m)"
    by (rule map_cong [OF refl]) (simp add: bit_take_bit_iff)
  have "toBinaryString TMax (m\<lparr>Mask := take_bit (nat TMax) (Mask m)\<rparr>) = Some (?f (Mask m))"
    using eq [of "m\<lparr>Mask := take_bit (nat TMax) (Mask m)\<rparr>"] low
    by (simp add: promoted_bits_def)
  with eq [of m] len nth show ?thesis by blast
qed

theorem toBinaryString_chars_witness:
  "(0::int) \<le> 8 \<and> 8 \<le> int (promoted_bits (Mask \<lparr>Mask = 36 :: 8 word\<rparr>))
 \<and> toBinaryString 8 \<lparr>Mask = 36 :: 8 word\<rparr> = Some ''00100100''
 \<and> toBinaryString 4 \<lparr>Mask = 19 :: 16 word\<rparr> = Some ''0011''"
proof -
  have a: "toBinaryString 8 \<lparr>Mask = 36 :: 8 word\<rparr> = Some ''00100100''"
    by code_simp
  have b: "toBinaryString 4 \<lparr>Mask = 19 :: 16 word\<rparr> = Some ''0011''"
    by code_simp
  show ?thesis
    using toBinaryString_chars [of 8 "\<lparr>Mask = 36 :: 8 word\<rparr>"]
      toBinaryString_chars [of 4 "\<lparr>Mask = 19 :: 16 word\<rparr>"] a b
    by (simp add: promoted_bits_def)
qed

end
